theory Spec2Isabelle
  imports Complex_Main
begin

section \<open>Values of the language\<close>

text \<open>
  The controller works on untyped JSON data: the query of the request and the charge
  objects of the payment processor. A number is NaN or a finite number of the
  64-bit binary floating point format, written as the rational it is (the infinities and
  the sign of zero are not in the model: the numbers of the input are finite, and no
  column tells the two zeros apart). An object is the list of its own properties in
  insertion order; where a key occurs twice the first occurrence is the property.
\<close>

datatype jsnum = Fin rat | NaN

datatype jsval =
    JUndefined
  | JNull
  | JBool bool
  | JNum jsnum
  | JStr string
  | JArr "jsval list"
  | JObj "(string \<times> jsval) list"

datatype error = TypeError | RangeError | ExternalError string

text \<open>\<open>!v\<close>, \<open>v ? a : b\<close>, \<open>v || d\<close> and \<open>while (v)\<close> all test \<open>ToBoolean v\<close>.\<close>

fun truthy :: "jsval \<Rightarrow> bool" where
  "truthy JUndefined = False"
| "truthy JNull = False"
| "truthy (JBool b) = b"
| "truthy (JNum (Fin q)) = (q \<noteq> 0)"
| "truthy (JNum NaN) = False"
| "truthy (JStr s) = (s \<noteq> [])"
| "truthy (JArr xs) = True"
| "truthy (JObj kvs) = True"

fun nullish :: "jsval \<Rightarrow> bool" where
  "nullish JUndefined = True"
| "nullish JNull = True"
| "nullish v = False"

text \<open>
  Reading the property \<open>k\<close> of a value that is neither undefined nor null. An object
  gives its own property, or undefined; of the names the controller reads, none is found
  on the prototype of a JSON object, array, number or boolean (a string has the method
  \<open>link\<close>, whose only reader goes on to a property that a function does not have, so
  that undefined gives the same column).
\<close>

fun get_prop :: "jsval \<Rightarrow> string \<Rightarrow> jsval" where
  "get_prop (JObj kvs) k = (case map_of kvs k of Some v \<Rightarrow> v | None \<Rightarrow> JUndefined)"
| "get_prop v k = JUndefined"

text \<open>\<open>v.k\<close>: a TypeError on undefined and null.\<close>

definition get :: "jsval \<Rightarrow> string \<Rightarrow> error + jsval" where
  "get v k = (if nullish v then Inl TypeError else Inr (get_prop v k))"

text \<open>\<open>e.k\<close> and \<open>e?.k\<close> after an expression \<open>e\<close> that may itself have thrown.\<close>

definition member :: "error + jsval \<Rightarrow> string \<Rightarrow> error + jsval" where
  "member m k = (case m of Inl e \<Rightarrow> Inl e | Inr v \<Rightarrow> get v k)"

definition opt_member :: "error + jsval \<Rightarrow> string \<Rightarrow> error + jsval" where
  "opt_member m k =
     (case m of Inl e \<Rightarrow> Inl e
      | Inr v \<Rightarrow> Inr (if nullish v then JUndefined else get_prop v k))"

text \<open>\<open>e[0]\<close>.\<close>

fun elem0 :: "jsval \<Rightarrow> jsval" where
  "elem0 (JArr xs) = (case xs of [] \<Rightarrow> JUndefined | x # _ \<Rightarrow> x)"
| "elem0 (JStr s) = (case s of [] \<Rightarrow> JUndefined | c # _ \<Rightarrow> JStr [c])"
| "elem0 (JObj kvs) = (case map_of kvs ''0'' of Some v \<Rightarrow> v | None \<Rightarrow> JUndefined)"
| "elem0 v = JUndefined"

definition member0 :: "error + jsval \<Rightarrow> error + jsval" where
  "member0 m =
     (case m of Inl e \<Rightarrow> Inl e
      | Inr v \<Rightarrow> if nullish v then Inl TypeError else Inr (elem0 v))"

text \<open>\<open>e || d\<close> with a literal \<open>d\<close>, \<open>t ? a : b\<close>, and \<open>e === "s"\<close>.\<close>

definition or_else :: "error + jsval \<Rightarrow> jsval \<Rightarrow> error + jsval" where
  "or_else m d = (case m of Inl e \<Rightarrow> Inl e | Inr v \<Rightarrow> Inr (if truthy v then v else d))"

definition cond :: "error + jsval \<Rightarrow> error + jsval \<Rightarrow> error + jsval \<Rightarrow> error + jsval" where
  "cond t a b = (case t of Inl e \<Rightarrow> Inl e | Inr v \<Rightarrow> if truthy v then a else b)"

definition strict_eq_str :: "error + jsval \<Rightarrow> string \<Rightarrow> error + jsval" where
  "strict_eq_str m s = (case m of Inl e \<Rightarrow> Inl e | Inr v \<Rightarrow> Inr (JBool (v = JStr s)))"

section \<open>The external charge listing\<close>

text \<open>
  The parameters of one call of \<open>stripeInstance.charges.list\<close> and its answer: the
  array \<open>data\<close> of the charges and the truth value of \<open>has_more\<close>, as the client
  library gives them. The external source is a script: the list of its answers to the
  successive calls of one request, each a page or a failure. A call made after the script
  has ended is never answered, and the handler that awaits it never returns.
\<close>

record params =
  created_gte :: int
  created_lte :: int
  limit :: nat
  status :: string
  starting_after :: "jsval option"

record response =
  data :: "jsval list"
  has_more :: bool

type_synonym reply = "error + response"

subsection \<open>fetchTransactions\<close>

text \<open>
  One round of the \<open>while (hasMore)\<close> loop of \<open>fetchTransactions\<close>, entered with
  \<open>hasMore\<close> true: the state is \<open>charges\<close> and \<open>startingAfter\<close>. The result is
  the list of the parameters of the calls made, and what the loop leaves: \<open>None\<close> when a
  call is never answered, the exception thrown, or the charges collected.
\<close>

definition list_params :: "int \<Rightarrow> int \<Rightarrow> jsval \<Rightarrow> params" where
  "list_params startDate endDate startingAfter =
     \<lparr>created_gte = startDate, created_lte = endDate, limit = 10,
      status = ''succeeded'',
      starting_after = (if truthy startingAfter then Some startingAfter else None)\<rparr>"

fun fetch_loop ::
  "int \<Rightarrow> int \<Rightarrow> jsval list \<Rightarrow> jsval \<Rightarrow> reply list
     \<Rightarrow> params list \<times> (error + jsval list) option" where
  "fetch_loop startDate endDate charges startingAfter [] =
     ([list_params startDate endDate startingAfter], None)"
| "fetch_loop startDate endDate charges startingAfter (r # rs) =
     (let ps = list_params startDate endDate startingAfter in
      case r of
        Inl e \<Rightarrow> ([ps], Some (Inl e))
      | Inr resp \<Rightarrow>
          (let charges' = charges @ data resp; hasMore = has_more resp in
           if length (data resp) > 0 then
             (case get (last (data resp)) ''id'' of
                Inl e \<Rightarrow> ([ps], Some (Inl e))
              | Inr startingAfter' \<Rightarrow>
                  if hasMore then
                    (let (reqs, res) = fetch_loop startDate endDate charges' startingAfter' rs
                     in (ps # reqs, res))
                  else ([ps], Some (Inr charges')))
           else ([ps], Some (Inr charges'))))"

text \<open>\<open>charges.filter((charge) => charge.status === "succeeded")\<close>.\<close>

fun filter_succeeded :: "jsval list \<Rightarrow> error + jsval list" where
  "filter_succeeded [] = Inr []"
| "filter_succeeded (charge # cs) =
     (case strict_eq_str (get charge ''status'') ''succeeded'' of
        Inl e \<Rightarrow> Inl e
      | Inr keep \<Rightarrow>
          (case filter_succeeded cs of
             Inl e \<Rightarrow> Inl e
           | Inr r \<Rightarrow> Inr (if truthy keep then charge # r else r)))"

definition fetchTransactions ::
  "int \<Rightarrow> int \<Rightarrow> reply list \<Rightarrow> params list \<times> (error + jsval list) option" where
  "fetchTransactions startDate endDate script =
     (let (reqs, res) = fetch_loop startDate endDate [] JNull script in
      (reqs,
       case res of
         None \<Rightarrow> None
       | Some (Inl e) \<Rightarrow> Some (Inl e)
       | Some (Inr charges) \<Rightarrow> Some (filter_succeeded charges)))"

section \<open>What the language runtime and the libraries provide\<close>

text \<open>
  The conversions of the language that depend on parsing text, and the CSV library, are
  not part of the controller. They are parameters of the model, and every theorem holds
  for all of them:
  \<^item> \<open>ToNumber_parse v\<close>: the number that a string, an array or an object converts to;
  \<^item> \<open>Date_parse v\<close>: the time value of \<open>new Date(v)\<close> for a string, an array or an
    object \<open>v\<close>, NaN for an invalid date;
  \<^item> \<open>parseInt\<close>;
  \<^item> \<open>json2csv fields rows\<close>: \<open>new Parser({ fields }).parse(rows)\<close>.

  The three conversions are total: an object whose conversion to a primitive value
  throws is outside the model.
\<close>

record runtime =
  ToNumber_parse :: "jsval \<Rightarrow> jsnum"
  Date_parse :: "jsval \<Rightarrow> jsnum"
  parseInt :: "jsval \<Rightarrow> jsnum"
  json2csv :: "string list \<Rightarrow> (string \<times> jsval) list list \<Rightarrow> error + string"

fun to_number :: "runtime \<Rightarrow> jsval \<Rightarrow> jsnum" where
  "to_number rt JUndefined = NaN"
| "to_number rt JNull = Fin 0"
| "to_number rt (JBool b) = Fin (if b then 1 else 0)"
| "to_number rt (JNum n) = n"
| "to_number rt v = ToNumber_parse rt v"

subsection \<open>Arithmetic\<close>

text \<open>
  The result of a division or a multiplication is the exact result rounded to the nearest
  number of the format, to the one with the even significand when two are equally near:
  \<open>2 ^ (e - 52)\<close> is the distance between neighbours at the exponent \<open>e\<close>, and below
  the exponent -1022 the distance stays \<open>2 ^ -1074\<close>, so that a small enough result is
  zero. A result that rounds to \<open>2 ^ 1024\<close> or beyond is infinite in the language and is
  written NaN here: a quotient by 100 is never infinite, and the one reader of a product
  is \<open>new Date\<close>, which takes an infinite number and NaN alike for an invalid date.
\<close>

function bit_length :: "int \<Rightarrow> int" where
  "bit_length n = (if n \<le> 0 then 0 else 1 + bit_length (n div 2))"
  by pat_completeness auto
termination
  by (relation "measure nat") auto

declare bit_length.simps [simp del]

definition pow2 :: "int \<Rightarrow> rat" where
  "pow2 k = (if 0 \<le> k then 2 ^ nat k else 1 / 2 ^ nat (- k))"

text \<open>The exponent \<open>e\<close> of a positive \<open>a\<close>: \<open>2 ^ e \<le> a < 2 ^ (e + 1)\<close>.\<close>

definition floor_log2 :: "rat \<Rightarrow> int" where
  "floor_log2 a =
     (if 1 \<le> a then bit_length \<lfloor>a\<rfloor> - 1 else - bit_length (\<lceil>1 / a\<rceil> - 1))"

definition round_half_even :: "rat \<Rightarrow> int" where
  "round_half_even x =
     (let f = \<lfloor>x\<rfloor>; r = x - of_int f
      in if r < 1 / 2 then f else if 1 / 2 < r then f + 1
         else if even f then f else f + 1)"

definition ieee_round :: "rat \<Rightarrow> jsnum" where
  "ieee_round x =
     (if x = 0 then Fin 0
      else
        (let a = \<bar>x\<bar>;
             e = max (floor_log2 a) (- 1022);
             ulp = pow2 (e - 52);
             r = of_int (round_half_even (a / ulp)) * ulp
         in if pow2 1024 \<le> r then NaN else Fin (if x < 0 then - r else r)))"

text \<open>\<open>e / d\<close> and \<open>e * d\<close> for a literal \<open>d\<close> that is not zero.\<close>

definition divide_by :: "runtime \<Rightarrow> error + jsval \<Rightarrow> rat \<Rightarrow> error + jsval" where
  "divide_by rt m d =
     (case m of Inl e \<Rightarrow> Inl e
      | Inr v \<Rightarrow>
          Inr (JNum (case to_number rt v of Fin q \<Rightarrow> ieee_round (q / d) | NaN \<Rightarrow> NaN)))"

definition times_by :: "runtime \<Rightarrow> error + jsval \<Rightarrow> rat \<Rightarrow> error + jsval" where
  "times_by rt m d =
     (case m of Inl e \<Rightarrow> Inl e
      | Inr v \<Rightarrow>
          Inr (JNum (case to_number rt v of Fin q \<Rightarrow> ieee_round (q * d) | NaN \<Rightarrow> NaN)))"

text \<open>\<open>e.toUpperCase()\<close>: letters beyond ASCII are left as they are.\<close>

definition upper_char :: "char \<Rightarrow> char" where
  "upper_char c =
     (let n = (of_char c :: nat) in if 97 \<le> n \<and> n \<le> 122 then char_of (n - 32) else c)"

definition toUpperCase :: "error + jsval \<Rightarrow> error + jsval" where
  "toUpperCase m =
     (case m of Inl e \<Rightarrow> Inl e
      | Inr (JStr s) \<Rightarrow> Inr (JStr (map upper_char s))
      | Inr _ \<Rightarrow> Inl TypeError)"

subsection \<open>Dates\<close>

text \<open>
  The time value of a date is a whole number of milliseconds since the epoch, at most
  8.64e15 in absolute value, or NaN.
\<close>

definition time_clip :: "jsnum \<Rightarrow> jsnum" where
  "time_clip n =
     (case n of NaN \<Rightarrow> NaN
      | Fin q \<Rightarrow> if \<bar>q\<bar> > 8640000000000000 then NaN
                 else Fin (of_int (if q < 0 then \<lceil>q\<rceil> else \<lfloor>q\<rfloor>)))"

fun new_Date :: "runtime \<Rightarrow> jsval \<Rightarrow> jsnum" where
  "new_Date rt JUndefined = NaN"
| "new_Date rt JNull = Fin 0"
| "new_Date rt (JBool b) = Fin (if b then 1 else 0)"
| "new_Date rt (JNum n) = time_clip n"
| "new_Date rt v = Date_parse rt v"

definition digit :: "int \<Rightarrow> char" where
  "digit d = ''0123456789'' ! nat (d mod 10)"

definition pad2 :: "int \<Rightarrow> string" where
  "pad2 n = [digit (n div 10), digit n]"

definition pad3 :: "int \<Rightarrow> string" where
  "pad3 n = [digit (n div 100), digit (n div 10), digit n]"

definition pad4 :: "int \<Rightarrow> string" where
  "pad4 n = [digit (n div 1000), digit (n div 100), digit (n div 10), digit n]"

definition pad6 :: "int \<Rightarrow> string" where
  "pad6 n = [digit (n div 100000), digit (n div 10000), digit (n div 1000),
             digit (n div 100), digit (n div 10), digit n]"

text \<open>Year, month and day of a day number counted from 1970-01-01.\<close>

definition civil_from_days :: "int \<Rightarrow> int \<times> int \<times> int" where
  "civil_from_days z0 =
     (let z = z0 + 719468;
          era = z div 146097;
          doe = z - era * 146097;
          yoe = (doe - doe div 1460 + doe div 36524 - doe div 146096) div 365;
          doy = doe - (365 * yoe + yoe div 4 - yoe div 100);
          mp = (5 * doy + 2) div 153;
          d = doy - (153 * mp + 2) div 5 + 1;
          m = (if mp < 10 then mp + 3 else mp - 9);
          y = yoe + era * 400 + (if m \<le> 2 then 1 else 0)
      in (y, m, d))"

definition year_string :: "int \<Rightarrow> string" where
  "year_string y =
     (if 0 \<le> y \<and> y \<le> 9999 then pad4 y
      else (if y < 0 then ''-'' else ''+'') @ pad6 \<bar>y\<bar>)"

text \<open>\<open>toISOString()\<close> of a date with the time value \<open>tv\<close>.\<close>

definition iso_string :: "int \<Rightarrow> string" where
  "iso_string t =
     (let ms = t mod 86400000;
          (y, m, d) = civil_from_days (t div 86400000)
      in year_string y @ ''-'' @ pad2 m @ ''-'' @ pad2 d @ ''T''
         @ pad2 (ms div 3600000) @ '':'' @ pad2 (ms div 60000 mod 60) @ '':''
         @ pad2 (ms div 1000 mod 60) @ ''.'' @ pad3 (ms mod 1000) @ ''Z'')"

definition toISOString :: "jsnum \<Rightarrow> error + jsval" where
  "toISOString tv =
     (case tv of NaN \<Rightarrow> Inl RangeError | Fin q \<Rightarrow> Inr (JStr (iso_string \<lfloor>q\<rfloor>)))"

text \<open>\<open>new Date(e).toISOString()\<close>.\<close>

definition date_iso :: "runtime \<Rightarrow> error + jsval \<Rightarrow> error + jsval" where
  "date_iso rt m = (case m of Inl e \<Rightarrow> Inl e | Inr v \<Rightarrow> toISOString (new_Date rt v))"

section \<open>mapTransactionData\<close>

text \<open>
  An object literal is the list of its keys, each with the result of its expression. The
  expressions are evaluated in the order written, and the first one that throws ends the
  evaluation of the literal.
\<close>

fun object_literal :: "(string \<times> (error + jsval)) list \<Rightarrow> error + (string \<times> jsval) list" where
  "object_literal [] = Inr []"
| "object_literal ((k, m) # ps) =
     (case m of
        Inl e \<Rightarrow> Inl e
      | Inr v \<Rightarrow>
          (case object_literal ps of Inl e \<Rightarrow> Inl e | Inr r \<Rightarrow> Inr ((k, v) # r)))"

abbreviation emptyString :: jsval where
  "emptyString \<equiv> JStr []"

text \<open>The function that \<open>mapTransactionData\<close> maps over the charges.\<close>

definition mapCharge :: "runtime \<Rightarrow> jsval \<Rightarrow> error + (string \<times> jsval) list" where
  "mapCharge rt charge = object_literal
     [
       (''ID'',
          get charge ''id''),
       (''Created date (UTC)'',
          date_iso rt (times_by rt (get charge ''created'') 1000)),
       (''Amount'',
          divide_by rt (get charge ''amount'') 100),
       (''Amount Refunded'',
          divide_by rt (get charge ''amount_refunded'') 100),
       (''Currency'',
          toUpperCase (get charge ''currency'')),
       (''Captured'',
          get charge ''captured''),
       (''Converted Amount'',
          divide_by rt (get charge ''amount_captured'') 100),
       (''Converted Amount Refunded'',
          divide_by rt (get charge ''amount_refunded'') 100),
       (''Converted Currency'',
          toUpperCase (get charge ''currency'')),
       (''Decline Reason'',
          or_else (get charge ''failure_message'') emptyString),
       (''Description'',
          or_else (get charge ''description'') emptyString),
       (''Fee'',
          cond (get charge ''balance_transaction'') (divide_by rt (member (get charge
            ''balance_transaction'') ''fee'') 100) (Inr emptyString)),
       (''Is Link'',
          strict_eq_str (opt_member (get charge ''payment_method_details'') ''type'') ''link''),
       (''Link Funding'',
          or_else (opt_member (opt_member (get charge ''payment_method_details'') ''link'')
            ''funding'') emptyString),
       (''Mode'',
          cond (get charge ''payment_intent'') (Inr (JStr ''payment_intent'')) (Inr (JStr
            ''charge''))),
       (''PaymentIntent ID'',
          or_else (get charge ''payment_intent'') emptyString),
       (''Payment Source Type'',
          or_else (opt_member (get charge ''payment_method_details'') ''type'') emptyString),
       (''Refunded date (UTC)'',
          cond (get charge ''refunded'') (date_iso rt (times_by rt (member (member0 (member (get
            charge ''refunds'') ''data'')) ''created'') 1000)) (Inr emptyString)),
       (''Statement Descriptor'',
          or_else (get charge ''statement_descriptor'') emptyString),
       (''Status'',
          get charge ''status''),
       (''Seller Message'',
          or_else (opt_member (get charge ''outcome'') ''seller_message'') emptyString),
       (''Taxes On Fee'',
          cond (get charge ''balance_transaction'') (or_else (member (get charge
            ''balance_transaction'') ''tax'') emptyString) (Inr emptyString)),
       (''Card ID'',
          or_else (opt_member (opt_member (get charge ''payment_method_details'') ''card'')
            ''id'') emptyString),
       (''Card Name'',
          or_else (opt_member (opt_member (get charge ''payment_method_details'') ''card'')
            ''name'') emptyString),
       (''Card Address Line1'',
          or_else (opt_member (opt_member (get charge ''payment_method_details'') ''card'')
            ''address_line1'') emptyString),
       (''Card Address Line2'',
          or_else (opt_member (opt_member (get charge ''payment_method_details'') ''card'')
            ''address_line2'') emptyString),
       (''Card Address City'',
          or_else (opt_member (opt_member (get charge ''payment_method_details'') ''card'')
            ''address_city'') emptyString),
       (''Card Address State'',
          or_else (opt_member (opt_member (get charge ''payment_method_details'') ''card'')
            ''address_state'') emptyString),
       (''Card Address Country'',
          or_else (opt_member (opt_member (get charge ''payment_method_details'') ''card'')
            ''address_country'') emptyString),
       (''Card Address Zip'',
          or_else (opt_member (opt_member (get charge ''payment_method_details'') ''card'')
            ''address_zip'') emptyString),
       (''Card AVS Line1 Status'',
          or_else (opt_member (opt_member (opt_member (get charge ''payment_method_details'')
            ''card'') ''checks'') ''address_line1_check'') emptyString),
       (''Card AVS Zip Status'',
          or_else (opt_member (opt_member (opt_member (get charge ''payment_method_details'')
            ''card'') ''checks'') ''address_zip_check'') emptyString),
       (''Card Brand'',
          or_else (opt_member (opt_member (get charge ''payment_method_details'') ''card'')
            ''brand'') emptyString),
       (''Card CVC Status'',
          or_else (opt_member (opt_member (opt_member (get charge ''payment_method_details'')
            ''card'') ''checks'') ''cvc_check'') emptyString),
       (''Card Exp Month'',
          or_else (opt_member (opt_member (get charge ''payment_method_details'') ''card'')
            ''exp_month'') emptyString),
       (''Card Exp Year'',
          or_else (opt_member (opt_member (get charge ''payment_method_details'') ''card'')
            ''exp_year'') emptyString),
       (''Card Fingerprint'',
          or_else (opt_member (opt_member (get charge ''payment_method_details'') ''card'')
            ''fingerprint'') emptyString),
       (''Card Funding'',
          or_else (opt_member (opt_member (get charge ''payment_method_details'') ''card'')
            ''funding'') emptyString),
       (''Card Issue Country'',
          or_else (opt_member (opt_member (get charge ''payment_method_details'') ''card'')
            ''country'') emptyString),
       (''Card Last4'',
          or_else (opt_member (opt_member (get charge ''payment_method_details'') ''card'')
            ''last4'') emptyString),
       (''Card Tokenization Method'',
          or_else (opt_member (opt_member (get charge ''payment_method_details'') ''card'')
            ''tokenization_method'') emptyString),
       (''Customer ID'',
          or_else (get charge ''customer'') emptyString),
       (''Customer Description'',
          cond (get charge ''customer'') (member (get charge ''customer'') ''description'') (Inr
            emptyString)),
       (''Customer Email'',
          or_else (get charge ''receipt_email'') emptyString),
       (''Customer Phone'',
          or_else (opt_member (get charge ''billing_details'') ''phone'') emptyString),
       (''Shipping Name'',
          or_else (opt_member (get charge ''shipping'') ''name'') emptyString),
       (''Shipping Address Line1'',
          or_else (opt_member (opt_member (get charge ''shipping'') ''address'') ''line1'')
            emptyString),
       (''Shipping Address Line2'',
          or_else (opt_member (opt_member (get charge ''shipping'') ''address'') ''line2'')
            emptyString),
       (''Shipping Address City'',
          or_else (opt_member (opt_member (get charge ''shipping'') ''address'') ''city'')
            emptyString),
       (''Shipping Address State'',
          or_else (opt_member (opt_member (get charge ''shipping'') ''address'') ''state'')
            emptyString),
       (''Shipping Address Country'',
          or_else (opt_member (opt_member (get charge ''shipping'') ''address'') ''country'')
            emptyString),
       (''Shipping Address Postal Code'',
          or_else (opt_member (opt_member (get charge ''shipping'') ''address'') ''postal_code'')
            emptyString),
       (''Disputed Amount'',
          cond (get charge ''dispute'') (divide_by rt (member (get charge ''dispute'')
            ''amount'') 100) (Inr emptyString)),
       (''Dispute Reason'',
          cond (get charge ''dispute'') (member (get charge ''dispute'') ''reason'') (Inr
            emptyString)),
       (''Dispute Status'',
          cond (get charge ''dispute'') (member (get charge ''dispute'') ''status'') (Inr
            emptyString)),
       (''Invoice ID'',
          or_else (get charge ''invoice'') emptyString),
       (''Invoice Number'',
          cond (get charge ''invoice'') (get charge ''invoice_number'') (Inr emptyString)),
       (''Checkout Session ID'',
          or_else (get charge ''checkout_session'') emptyString),
       (''Checkout Custom Field 1 Key'',
          or_else (opt_member (get charge ''metadata'') ''custom_field_1_key'') emptyString),
       (''Checkout Custom Field 1 Value'',
          or_else (opt_member (get charge ''metadata'') ''custom_field_1_value'') emptyString),
       (''Checkout Custom Field 2 Key'',
          or_else (opt_member (get charge ''metadata'') ''custom_field_2_key'') emptyString),
       (''Checkout Custom Field 2 Value'',
          or_else (opt_member (get charge ''metadata'') ''custom_field_2_value'') emptyString),
       (''Checkout Custom Field 3 Key'',
          or_else (opt_member (get charge ''metadata'') ''custom_field_3_key'') emptyString),
       (''Checkout Custom Field 3 Value'',
          or_else (opt_member (get charge ''metadata'') ''custom_field_3_value'') emptyString),
       (''Checkout Line Item Summary'',
          or_else (opt_member (get charge ''metadata'') ''line_item_summary'') emptyString),
       (''Checkout Promotional Consent'',
          or_else (opt_member (get charge ''metadata'') ''promotional_consent'') emptyString),
       (''Checkout Terms of Service Consent'',
          or_else (opt_member (get charge ''metadata'') ''tos_consent'') emptyString),
       (''Client Reference ID'',
          or_else (get charge ''client_reference_id'') emptyString),
       (''Payment Link ID'',
          or_else (get charge ''payment_link'') emptyString),
       (''UTM Campaign'',
          or_else (opt_member (get charge ''metadata'') ''utm_campaign'') emptyString),
       (''UTM Content'',
          or_else (opt_member (get charge ''metadata'') ''utm_content'') emptyString),
       (''UTM Medium'',
          or_else (opt_member (get charge ''metadata'') ''utm_medium'') emptyString),
       (''UTM Source'',
          or_else (opt_member (get charge ''metadata'') ''utm_source'') emptyString),
       (''UTM Term'',
          or_else (opt_member (get charge ''metadata'') ''utm_term'') emptyString),
       (''Terminal Location ID'',
          or_else (get charge ''terminal_location'') emptyString),
       (''Terminal Reader ID'',
          or_else (get charge ''terminal_reader'') emptyString),
       (''Application Fee'',
          or_else (divide_by rt (get charge ''application_fee_amount'') 100) emptyString),
       (''Application ID'',
          or_else (get charge ''application'') emptyString),
       (''Destination'',
          or_else (get charge ''destination'') emptyString),
       (''Transfer'',
          or_else (get charge ''transfer'') emptyString),
       (''Transfer Group'',
          or_else (get charge ''transfer_group'') emptyString),
       (''Fund'',
          or_else (opt_member (get charge ''metadata'') ''Product Names'') emptyString)
     ]"

text \<open>\<open>charges.map(f)\<close>: the first charge on which \<open>f\<close> throws ends the call.\<close>

fun array_map :: "('a \<Rightarrow> error + 'b) \<Rightarrow> 'a list \<Rightarrow> error + 'b list" where
  "array_map f [] = Inr []"
| "array_map f (x # xs) =
     (case f x of
        Inl e \<Rightarrow> Inl e
      | Inr y \<Rightarrow> (case array_map f xs of Inl e \<Rightarrow> Inl e | Inr ys \<Rightarrow> Inr (y # ys)))"

definition mapTransactionData ::
  "runtime \<Rightarrow> jsval list \<Rightarrow> error + (string \<times> jsval) list list" where
  "mapTransactionData rt charges = array_map (mapCharge rt) charges"

section \<open>The request handlers\<close>

text \<open>
  The query of a request (undefined for a parameter that is missing), the response
  written, and what a handler leaves: a response, an exception that it does not catch
  (what becomes of it is the framework's business), or nothing when it awaits an answer
  that never comes. With it a handler gives the list of the parameters of its calls of
  the external source. In the \<open>try\<close> of \<open>transactions\<close> the external call is the one
  step that can throw. A time value is a whole number of at most 8.64e15 in absolute
  value: the floor of its rounded quotient by 1000 is the floor of the exact one.
\<close>

record query =
  startDate :: jsval
  endDate :: jsval
  page :: jsval
  lastTransactionId :: jsval

datatype body = Json jsval | Json_list response | Send string

datatype http_response = Http nat body

datatype outcome = Responded http_response | Uncaught error | Pending

definition error_json :: "string \<Rightarrow> body" where
  "error_json msg = Json (JObj [(''error'', JStr msg)])"

definition transactions :: "runtime \<Rightarrow> query \<Rightarrow> reply list \<Rightarrow> params list \<times> outcome" where
  "transactions rt q script =
     (let page' = or_else (Inr (JNum (parseInt rt (page q)))) (JNum (Fin 1)) in
      if \<not> truthy (startDate q) then
        ([], Responded (Http 400 (error_json ''startDate is required'')))
      else if \<not> truthy (endDate q) then
        ([], Responded (Http 400 (error_json ''endDate is required'')))
      else
        (case new_Date rt (startDate q) of
           NaN \<Rightarrow> ([], Responded (Http 400 (error_json ''Both dates must be valid.'')))
         | Fin start \<Rightarrow>
            (case new_Date rt (endDate q) of
               NaN \<Rightarrow> ([], Responded (Http 400 (error_json ''Both dates must be valid.'')))
             | Fin end' \<Rightarrow>
                if end' < start then
                  ([], Responded (Http 400
                     (error_json ''endDate must be greater than or equal to startDate'')))
                else
                  (let startUTC = \<lfloor>start / 1000\<rfloor>;
                       endUTC = \<lfloor>end' / 1000\<rfloor>;
                       params = \<lparr>created_gte = startUTC, created_lte = endUTC,
                                 limit = 10000, status = ''succeeded'',
                                 starting_after = None\<rparr>
                   in case script of
                        [] \<Rightarrow> ([params], Pending)
                      | Inl error # _ \<Rightarrow>
                          ([params], Responded (Http 500
                             (error_json ''An error occurred while fetching transactions'')))
                      | Inr response # _ \<Rightarrow>
                          ([params], Responded (Http 200 (Json_list response)))))))"

text \<open>\<open>Object.keys(mappedData[0])\<close>: a TypeError when there is no first entry.\<close>

definition keys_of_first :: "(string \<times> jsval) list list \<Rightarrow> error + string list" where
  "keys_of_first mappedData =
     (case mappedData of [] \<Rightarrow> Inl TypeError | first # _ \<Rightarrow> Inr (map fst first))"

definition exportTransactionsToCSV ::
  "runtime \<Rightarrow> query \<Rightarrow> reply list \<Rightarrow> params list \<times> outcome" where
  "exportTransactionsToCSV rt q script =
     (if \<not> truthy (startDate q) then
        ([], Responded (Http 400 (error_json ''startDate is required'')))
      else if \<not> truthy (endDate q) then
        ([], Responded (Http 400 (error_json ''endDate is required'')))
      else
        (case new_Date rt (startDate q) of
           NaN \<Rightarrow> ([], Responded (Http 400 (error_json ''Both dates must be valid.'')))
         | Fin start \<Rightarrow>
            (case new_Date rt (endDate q) of
               NaN \<Rightarrow> ([], Responded (Http 400 (error_json ''Both dates must be valid.'')))
             | Fin end' \<Rightarrow>
                if end' < start then
                  ([], Responded (Http 400
                     (error_json ''endDate must be greater than or equal to startDate'')))
                else
                  (let startUTC = \<lfloor>start / 1000\<rfloor>;
                       endUTC = \<lfloor>end' / 1000\<rfloor>;
                       (reqs, fetched) = fetchTransactions startUTC endUTC script
                   in (reqs,
                       case fetched of
                         None \<Rightarrow> Pending
                       | Some (Inl e) \<Rightarrow> Uncaught e
                       | Some (Inr transactions') \<Rightarrow>
                           (case mapTransactionData rt transactions' of
                              Inl e \<Rightarrow> Uncaught e
                            | Inr mappedData \<Rightarrow>
                                (case keys_of_first mappedData of
                                   Inl e \<Rightarrow> Uncaught e
                                 | Inr fields' \<Rightarrow>
                                     (case json2csv rt fields' mappedData of
                                        Inl e \<Rightarrow> Uncaught e
                                      | Inr csv \<Rightarrow> Responded (Http 200 (Send csv))))))))))"

section \<open>Columns by the part of the charge they are read from\<close>







section \<open>A runtime and data to run the controller on\<close>

text \<open>
  An instance of the parameters, for the runs evaluated below. Its \<open>Date_parse\<close> reads
  a date written \<open>YYYY-MM-DD\<close> as midnight UTC of that day and takes everything else
  for an invalid date; its \<open>ToNumber_parse\<close> and \<open>parseInt\<close> give NaN, and its
  \<open>json2csv\<close> writes the header line only. No run below depends on the last three.
\<close>

definition days_from_civil :: "int \<Rightarrow> int \<Rightarrow> int \<Rightarrow> int" where
  "days_from_civil y0 m d =
     (let y = (if m \<le> 2 then y0 - 1 else y0);
          era = y div 400;
          yoe = y - era * 400;
          doy = (153 * (if m > 2 then m - 3 else m + 9) + 2) div 5 + d - 1;
          doe = yoe * 365 + yoe div 4 - yoe div 100 + doy
      in era * 146097 + doe - 719468)"

definition digit_of :: "char \<Rightarrow> int option" where
  "digit_of c =
     (let n = (of_char c :: nat) in if 48 \<le> n \<and> n \<le> 57 then Some (int n - 48) else None)"

definition parse_date_only :: "jsval \<Rightarrow> jsnum" where
  "parse_date_only v =
     (case v of
        JStr s \<Rightarrow>
          if length s = 10 \<and> s ! 4 = CHR ''-'' \<and> s ! 7 = CHR ''-'' then
            (case map digit_of [s ! 0, s ! 1, s ! 2, s ! 3, s ! 5, s ! 6, s ! 8, s ! 9] of
               [Some a, Some b, Some c, Some d, Some e, Some f, Some g, Some h] \<Rightarrow>
                 (let y = 1000 * a + 100 * b + 10 * c + d;
                      m = 10 * e + f;
                      dd = 10 * g + h;
                      days = days_from_civil y m dd
                  in if civil_from_days days = (y, m, dd)
                     then Fin (of_int (days * 86400000)) else NaN)
             | _ \<Rightarrow> NaN)
          else NaN
      | _ \<Rightarrow> NaN)"

fun join_commas :: "string list \<Rightarrow> string" where
  "join_commas [] = []"
| "join_commas [x] = x"
| "join_commas (x # xs) = x @ '','' @ join_commas xs"

definition sample_runtime :: runtime where
  "sample_runtime =
     \<lparr>ToNumber_parse = (\<lambda>v. NaN), Date_parse = parse_date_only, parseInt = (\<lambda>v. NaN),
      json2csv = (\<lambda>fields' rows. Inr (join_commas fields'))\<rparr>"

text \<open>Charges with an identifier and a status only, and pages of them.\<close>

definition numbered :: "string \<Rightarrow> int \<Rightarrow> jsval" where
  "numbered st n = JObj [(''id'', JStr (''ch_'' @ pad2 n)), (''status'', JStr st)]"

definition three_pages :: "response list" where
  "three_pages =
     [\<lparr>data = map (numbered ''succeeded'') [1..10], has_more = True\<rparr>,
      \<lparr>data = map (numbered ''succeeded'') [11..20], has_more = True\<rparr>,
      \<lparr>data = map (numbered ''succeeded'') [21..24], has_more = False\<rparr>]"

definition mixed_page :: response where
  "mixed_page =
     \<lparr>data = [numbered ''succeeded'' 1, numbered ''failed'' 2, numbered ''succeeded'' 3],
      has_more = False\<rparr>"

definition empty_page :: response where
  "empty_page = \<lparr>data = [], has_more = True\<rparr>"

definition blank_id_page :: response where
  "blank_id_page =
     \<lparr>data = [JObj [(''id'', JStr []), (''status'', JStr ''succeeded'')]],
      has_more = True\<rparr>"

text \<open>
  A charge with none of the optional parts, and a refunded and disputed charge with its
  amounts.
\<close>

definition minimal_charge :: jsval where
  "minimal_charge =
     JObj [(''id'', JStr ''ch_1''), (''created'', JNum (Fin 1704067200)),
           (''currency'', JStr ''usd''), (''status'', JStr ''succeeded'')]"

definition disputed_charge :: jsval where
  "disputed_charge =
     JObj [(''id'', JStr ''ch_2''), (''created'', JNum (Fin 1704067200)),
           (''amount'', JNum (Fin 2050)), (''amount_refunded'', JNum (Fin 500)),
           (''amount_captured'', JNum (Fin 2050)), (''application_fee_amount'', JNum (Fin 123)),
           (''balance_transaction'', JObj [(''fee'', JNum (Fin 89))]),
           (''dispute'', JObj [(''amount'', JNum (Fin 2050)), (''reason'', JStr ''fraudulent''),
                               (''status'', JStr ''lost'')]),
           (''refunded'', JBool True),
           (''refunds'', JObj [(''data'', JArr [JObj [(''created'', JNum (Fin 1704153600))]])]),
           (''currency'', JStr ''usd''), (''status'', JStr ''succeeded'')]"

definition free_charge :: jsval where
  "free_charge =
     JObj [(''id'', JStr ''ch_3''), (''created'', JNum (Fin 1704067200)),
           (''amount'', JNum (Fin 0)), (''application_fee_amount'', JNum (Fin 0)),
           (''currency'', JStr ''usd''), (''status'', JStr ''succeeded'')]"




definition tiny_fee_charge :: jsval where
  "tiny_fee_charge =
     JObj [(''id'', JStr ''ch_7''), (''created'', JNum (Fin 1704067200)),
           (''application_fee_amount'', JNum (Fin (1 / 2 ^ 1074))),
           (''currency'', JStr ''usd''), (''status'', JStr ''succeeded'')]"


definition january_query :: query where
  "january_query =
     \<lparr>startDate = JStr ''2024-01-01'', endDate = JStr ''2024-02-01'',
      page = JUndefined, lastTransactionId = JUndefined\<rparr>"

section \<open>Properties of the pagination\<close>

lemma filter_succeeded_status:
  "filter_succeeded cs = Inr r \<Longrightarrow> c \<in> set r \<Longrightarrow>
   get c ''status'' = Inr (JStr ''succeeded'')"
proof (induction cs arbitrary: r)
  case Nil
  then show ?case by simp
next
  case (Cons a cs)
  then show ?case
    by (auto simp: strict_eq_str_def split: sum.splits if_splits)
qed

lemma filter_succeeded_all:
  "\<forall>c\<in>set cs. get c ''status'' = Inr (JStr ''succeeded'') \<Longrightarrow> filter_succeeded cs = Inr cs"
  by (induction cs) (auto simp: strict_eq_str_def)

lemma fetchTransactions_fst:
  "fst (fetchTransactions sd ed script) = fst (fetch_loop sd ed [] JNull script)"
  by (simp add: fetchTransactions_def case_prod_beta)

lemma fetchTransactions_snd:
  "snd (fetchTransactions sd ed script) =
     (case snd (fetch_loop sd ed [] JNull script) of
        None \<Rightarrow> None
      | Some (Inl e) \<Rightarrow> Some (Inl e)
      | Some (Inr charges) \<Rightarrow> Some (filter_succeeded charges))"
  by (simp add: fetchTransactions_def case_prod_beta)

text \<open>
  C1. Whatever the pages of the external source hold, every record that
  \<open>fetchTransactions\<close> returns has the status \<open>"succeeded"\<close>.
\<close>

theorem C1_only_succeeded:
  "snd (fetchTransactions startUTC endUTC script) = Some (Inr cs) \<Longrightarrow> c \<in> set cs \<Longrightarrow>
   get c ''status'' = Inr (JStr ''succeeded'')"
  by (auto simp: fetchTransactions_snd split: option.splits sum.splits
      dest: filter_succeeded_status)

theorem C1_only_succeeded_witness:
  "snd (fetchTransactions 1704067200 1706745600 [Inr mixed_page])
     = Some (Inr [numbered ''succeeded'' 1, numbered ''succeeded'' 3])
   \<and> numbered ''succeeded'' 3 \<in> set [numbered ''succeeded'' 1, numbered ''succeeded'' 3]
   \<and> get (numbered ''succeeded'' 3) ''status'' = Inr (JStr ''succeeded'')"
proof -
  have run: "snd (fetchTransactions 1704067200 1706745600 [Inr mixed_page])
     = Some (Inr [numbered ''succeeded'' 1, numbered ''succeeded'' 3])"
    by code_simp
  have mem: "numbered ''succeeded'' 3 \<in> set [numbered ''succeeded'' 1, numbered ''succeeded'' 3]"
    by simp
  from C1_only_succeeded [OF run mem] run mem show ?thesis by simp
qed

lemma fetch_loop_empty_page:
  "i < length script \<Longrightarrow> script ! i = Inr resp \<Longrightarrow> data resp = [] \<Longrightarrow>
   snd (fetch_loop sd ed cs sa script) \<noteq> None
   \<and> length (fst (fetch_loop sd ed cs sa script)) \<le> Suc i"
proof (induction script arbitrary: i cs sa)
  case Nil
  then show ?case by simp
next
  case (Cons r rs)
  show ?case
  proof (cases i)
    case 0
    with Cons.prems show ?thesis by (simp add: Let_def)
  next
    case (Suc j)
    with Cons.prems have j: "j < length rs" "rs ! j = Inr resp" by simp_all
    show ?thesis
      using Cons.IH[OF j Cons.prems(3)] Suc
      by (auto simp: Let_def case_prod_beta split: sum.splits)
  qed
qed

lemma fetch_loop_until_empty:
  "\<forall>p\<in>set ps. data p \<noteq> [] \<and> has_more p \<and> \<not> nullish (last (data p)) \<Longrightarrow>
   data resp = [] \<Longrightarrow>
   snd (fetch_loop sd ed cs sa (map Inr ps @ Inr resp # rest))
     = Some (Inr (cs @ concat (map data ps)))
   \<and> length (fst (fetch_loop sd ed cs sa (map Inr ps @ Inr resp # rest))) = Suc (length ps)"
proof (induction ps arbitrary: cs sa)
  case Nil
  then show ?case by (simp add: Let_def)
next
  case (Cons p ps)
  then have "\<forall>p\<in>set ps. data p \<noteq> [] \<and> has_more p \<and> \<not> nullish (last (data p))"
    and p: "data p \<noteq> []" "has_more p" "\<not> nullish (last (data p))"
    by simp_all
  from Cons.IH [OF this(1) Cons.prems(2)] p show ?case
    by (simp add: Let_def get_def case_prod_beta)
qed

text \<open>
  C2. When some answer of the external source is a page without records, the loop of
  \<open>fetchTransactions\<close> ends: it makes no call after the one that this page answers,
  whatever \<open>has_more\<close> the page carries. When the pages before it all have records
  and announce more, the loop ends with the call that the empty page answers, and what
  was collected until then goes through the final filter.
\<close>

theorem C2_empty_page_ends_loop:
  "(i < length script \<and> script ! i = Inr resp \<and> data resp = [] \<longrightarrow>
      snd (fetchTransactions startUTC endUTC script) \<noteq> None
      \<and> length (fst (fetchTransactions startUTC endUTC script)) \<le> Suc i)
   \<and> (script = map Inr ps @ Inr resp # rest \<and> data resp = []
      \<and> (\<forall>p\<in>set ps. data p \<noteq> [] \<and> has_more p \<and> \<not> nullish (last (data p))) \<longrightarrow>
      snd (fetchTransactions startUTC endUTC script)
        = Some (filter_succeeded (concat (map data ps)))
      \<and> length (fst (fetchTransactions startUTC endUTC script)) = Suc (length ps))"
proof (intro conjI impI)
  assume a: "i < length script \<and> script ! i = Inr resp \<and> data resp = []"
  then have b: "snd (fetch_loop startUTC endUTC [] JNull script) \<noteq> None
      \<and> length (fst (fetch_loop startUTC endUTC [] JNull script)) \<le> Suc i"
    using fetch_loop_empty_page [of i script resp startUTC endUTC "[]" JNull] by simp
  from b show "snd (fetchTransactions startUTC endUTC script) \<noteq> None"
    by (auto simp: fetchTransactions_snd split: option.splits sum.splits)
  from b show "length (fst (fetchTransactions startUTC endUTC script)) \<le> Suc i"
    by (simp add: fetchTransactions_fst)
next
  assume a: "script = map Inr ps @ Inr resp # rest \<and> data resp = []
      \<and> (\<forall>p\<in>set ps. data p \<noteq> [] \<and> has_more p \<and> \<not> nullish (last (data p)))"
  then have b: "snd (fetch_loop startUTC endUTC [] JNull script)
        = Some (Inr (concat (map data ps)))
      \<and> length (fst (fetch_loop startUTC endUTC [] JNull script)) = Suc (length ps)"
    using fetch_loop_until_empty [of ps resp startUTC endUTC "[]" JNull rest] by simp
  from b show "snd (fetchTransactions startUTC endUTC script)
        = Some (filter_succeeded (concat (map data ps)))"
    by (simp add: fetchTransactions_snd)
  from b show "length (fst (fetchTransactions startUTC endUTC script)) = Suc (length ps)"
    by (simp add: fetchTransactions_fst)
qed

theorem C2_empty_page_ends_loop_witness:
  "(1::nat) < length ([Inr (hd three_pages), Inr empty_page, Inr mixed_page] :: reply list)
   \<and> [Inr (hd three_pages), Inr empty_page, Inr mixed_page] ! 1 = (Inr empty_page :: reply)
   \<and> data empty_page = [] \<and> has_more empty_page
   \<and> snd (fetchTransactions 1704067200 1706745600
        [Inr (hd three_pages), Inr empty_page, Inr mixed_page]) \<noteq> None
   \<and> length (fst (fetchTransactions 1704067200 1706745600
        [Inr (hd three_pages), Inr empty_page, Inr mixed_page])) \<le> Suc 1
   \<and> snd (fetchTransactions 1704067200 1706745600
        [Inr (hd three_pages), Inr empty_page, Inr mixed_page])
       = Some (filter_succeeded (concat (map data [hd three_pages])))
   \<and> length (fst (fetchTransactions 1704067200 1706745600
        [Inr (hd three_pages), Inr empty_page, Inr mixed_page])) = Suc (length [hd three_pages])"
proof -
  let ?script = "[Inr (hd three_pages), Inr empty_page, Inr mixed_page] :: reply list"
  have a: "(1::nat) < length ?script" by simp
  have b: "?script ! 1 = (Inr empty_page :: reply)" by simp
  have c: "data empty_page = []" "has_more empty_page" by (simp_all add: empty_page_def)
  have d: "?script = map Inr [hd three_pages] @ Inr empty_page # [Inr mixed_page]" by simp
  have e: "data (hd three_pages) \<noteq> []" "has_more (hd three_pages)"
    "\<not> nullish (last (data (hd three_pages)))"
    by code_simp+
  then have e': "\<forall>p\<in>set [hd three_pages].
      data p \<noteq> [] \<and> has_more p \<and> \<not> nullish (last (data p))"
    by simp
  note inst = C2_empty_page_ends_loop [of 1 ?script empty_page 1704067200 1706745600
      "[hd three_pages]" "[Inr mixed_page]"]
  have first: "snd (fetchTransactions 1704067200 1706745600 ?script) \<noteq> None
      \<and> length (fst (fetchTransactions 1704067200 1706745600 ?script)) \<le> Suc 1"
    by (rule mp [OF conjunct1 [OF inst]]) (intro conjI a b c(1))
  have second: "snd (fetchTransactions 1704067200 1706745600 ?script)
        = Some (filter_succeeded (concat (map data [hd three_pages])))
      \<and> length (fst (fetchTransactions 1704067200 1706745600 ?script))
        = Suc (length [hd three_pages])"
    by (rule mp [OF conjunct2 [OF inst]]) (intro conjI d c(1) e')
  show ?thesis
    by (intro conjI a b c conjunct1 [OF first] conjunct2 [OF first]
        conjunct1 [OF second] conjunct2 [OF second])
qed

lemma fetch_loop_pages:
  "ps \<noteq> [] \<Longrightarrow> \<forall>p\<in>set ps. data p \<noteq> [] \<and> \<not> nullish (last (data p)) \<Longrightarrow>
   \<forall>p\<in>set (butlast ps). has_more p \<Longrightarrow> \<not> has_more (last ps) \<Longrightarrow>
   snd (fetch_loop sd ed cs sa (map Inr ps @ rest)) = Some (Inr (cs @ concat (map data ps)))
   \<and> length (fst (fetch_loop sd ed cs sa (map Inr ps @ rest))) = length ps"
proof (induction ps arbitrary: cs sa)
  case Nil
  then show ?case by simp
next
  case (Cons p ps)
  show ?case
  proof (cases "ps = []")
    case True
    with Cons.prems show ?thesis by (simp add: Let_def get_def)
  next
    case False
    with Cons.prems have "\<forall>p\<in>set ps. data p \<noteq> [] \<and> \<not> nullish (last (data p))"
      "\<forall>p\<in>set (butlast ps). has_more p" "\<not> has_more (last ps)" "has_more p"
      by simp_all
    with Cons.IH[OF False] Cons.prems(2) show ?thesis
      by (simp add: Let_def get_def case_prod_beta)
  qed
qed

lemma get_Inr_not_nullish: "get v k = Inr x \<Longrightarrow> \<not> nullish v"
  by (auto simp: get_def split: if_splits)

text \<open>
  C3. The pages of a run are the answers to its calls, so that every page but the last
  announces more. When none of them is empty, the last one announces no more and every
  record has the status \<open>"succeeded"\<close>, \<open>fetchTransactions\<close> returns the records of
  all the pages in their order, as many as the pages hold together, after one call for
  each page.
\<close>

theorem C3_all_pages_collected:
  assumes "ps \<noteq> []"
    and "\<forall>p\<in>set ps. data p \<noteq> []"
    and "\<forall>p\<in>set ps. \<forall>c\<in>set (data p). get c ''status'' = Inr (JStr ''succeeded'')"
    and "\<forall>p\<in>set (butlast ps). has_more p"
    and "\<not> has_more (last ps)"
  shows "snd (fetchTransactions startUTC endUTC (map Inr ps @ rest))
           = Some (Inr (concat (map data ps)))
         \<and> length (concat (map data ps)) = sum_list (map (\<lambda>p. length (data p)) ps)
         \<and> length (fst (fetchTransactions startUTC endUTC (map Inr ps @ rest))) = length ps"
proof -
  have "\<forall>p\<in>set ps. data p \<noteq> [] \<and> \<not> nullish (last (data p))"
  proof
    fix p assume p: "p \<in> set ps"
    with assms(2) have ne: "data p \<noteq> []" by simp
    then have "last (data p) \<in> set (data p)" by simp
    with assms(3) p have "get (last (data p)) ''status'' = Inr (JStr ''succeeded'')" by blast
    then show "data p \<noteq> [] \<and> \<not> nullish (last (data p))"
      using ne by (auto dest: get_Inr_not_nullish)
  qed
  from fetch_loop_pages [OF assms(1) this assms(4) assms(5), of startUTC endUTC "[]" JNull rest]
  have loop: "snd (fetch_loop startUTC endUTC [] JNull (map Inr ps @ rest))
      = Some (Inr (concat (map data ps)))"
    and calls: "length (fst (fetch_loop startUTC endUTC [] JNull (map Inr ps @ rest)))
      = length ps"
    by simp_all
  have "\<forall>c\<in>set (concat (map data ps)). get c ''status'' = Inr (JStr ''succeeded'')"
    using assms(3) by auto
  then have "filter_succeeded (concat (map data ps)) = Inr (concat (map data ps))"
    by (rule filter_succeeded_all)
  with loop calls show ?thesis
    by (simp add: fetchTransactions_fst fetchTransactions_snd length_concat comp_def)
qed

theorem C3_all_pages_collected_witness:
  "length (data (three_pages ! 0)) = 10 \<and> length (data (three_pages ! 1)) = 10
   \<and> length (data (three_pages ! 2)) = 4 \<and> \<not> has_more (last three_pages)
   \<and> snd (fetchTransactions 1704067200 1706745600 (map Inr three_pages @ []))
        = Some (Inr (concat (map data three_pages)))
   \<and> length (concat (map data three_pages)) = 24
   \<and> length (fst (fetchTransactions 1704067200 1706745600 (map Inr three_pages @ []))) = 3"
proof -
  have h1: "three_pages \<noteq> []" by code_simp
  have h2: "\<forall>p\<in>set three_pages. data p \<noteq> []" by code_simp
  have h3: "\<forall>p\<in>set three_pages. \<forall>c\<in>set (data p).
      get c ''status'' = Inr (JStr ''succeeded'')" by code_simp
  have h4: "\<forall>p\<in>set (butlast three_pages). has_more p" by code_simp
  have h5: "\<not> has_more (last three_pages)" by code_simp
  have sizes: "length (data (three_pages ! 0)) = 10" "length (data (three_pages ! 1)) = 10"
    "length (data (three_pages ! 2)) = 4" "length three_pages = 3"
    "sum_list (map (\<lambda>p. length (data p)) three_pages) = 24"
    by code_simp+
  from C3_all_pages_collected [OF h1 h2 h3 h4 h5, of 1704067200 1706745600 "[]"] h5 sizes
  show ?thesis by simp
qed

lemma fetch_loop_requests:
  "fst (fetch_loop sd ed cs sa script) \<noteq> [] \<and>
   starting_after (hd (fst (fetch_loop sd ed cs sa script))) = (if truthy sa then Some sa else None) \<and>
   (\<forall>k. Suc k < length (fst (fetch_loop sd ed cs sa script)) \<longrightarrow>
      (\<exists>resp. k < length script \<and> script ! k = Inr resp \<and> data resp \<noteq> [] \<and>
         starting_after (fst (fetch_loop sd ed cs sa script) ! Suc k) =
           (if truthy (get_prop (last (data resp)) ''id'')
            then Some (get_prop (last (data resp)) ''id'') else None)))"
proof (induction script arbitrary: cs sa)
  case Nil
  then show ?case by (simp add: list_params_def)
next
  case (Cons r rs)
  show ?case
  proof (cases r)
    case (Inl e)
    then show ?thesis by (simp add: list_params_def)
  next
    case (Inr resp)
    show ?thesis
    proof (cases "data resp \<noteq> [] \<and> \<not> nullish (last (data resp)) \<and> has_more resp")
      case False
      with Inr show ?thesis
        by (auto simp: list_params_def Let_def get_def)
    next
      case True
      let ?sa = "get_prop (last (data resp)) ''id''"
      let ?rec = "fetch_loop sd ed (cs @ data resp) ?sa rs"
      have eq: "fst (fetch_loop sd ed cs sa (r # rs)) = list_params sd ed sa # fst ?rec"
        using Inr True by (simp add: Let_def get_def case_prod_beta)
      note IH = Cons.IH[of "cs @ data resp" ?sa]
      have ne: "fst ?rec \<noteq> []" using IH by blast
      have hd1: "starting_after (hd (fst ?rec)) = (if truthy ?sa then Some ?sa else None)"
        using IH by blast
      have step: "\<And>k. Suc k < length (fst ?rec) \<Longrightarrow>
        (\<exists>resp. k < length rs \<and> rs ! k = Inr resp \<and> data resp \<noteq> [] \<and>
         starting_after (fst ?rec ! Suc k) =
           (if truthy (get_prop (last (data resp)) ''id'')
            then Some (get_prop (last (data resp)) ''id'') else None))"
        using IH by blast
      show ?thesis
      proof (intro conjI allI impI)
        show "fst (fetch_loop sd ed cs sa (r # rs)) \<noteq> []" unfolding eq by simp
        show "starting_after (hd (fst (fetch_loop sd ed cs sa (r # rs)))) =
          (if truthy sa then Some sa else None)"
          unfolding eq by (simp add: list_params_def)
      next
        fix k assume k: "Suc k < length (fst (fetch_loop sd ed cs sa (r # rs)))"
        show "\<exists>resp. k < length (r # rs) \<and> (r # rs) ! k = Inr resp \<and> data resp \<noteq> [] \<and>
          starting_after (fst (fetch_loop sd ed cs sa (r # rs)) ! Suc k) =
           (if truthy (get_prop (last (data resp)) ''id'')
            then Some (get_prop (last (data resp)) ''id'') else None)"
        proof (cases k)
          case 0
          have "fst ?rec ! 0 = hd (fst ?rec)" using ne by (simp add: hd_conv_nth)
          with 0 Inr True hd1 show ?thesis unfolding eq by simp
        next
          case (Suc j)
          with k have "Suc j < length (fst ?rec)" unfolding eq by simp
          from step[OF this] Suc show ?thesis unfolding eq by simp
        qed
      qed
    qed
  qed
qed

text \<open>
  C9 as stated fails where the last record of a page has an identifier that is falsy: the
  page announces more, and the next call carries no \<open>starting_after\<close>.
\<close>

theorem C9_cursor_counterexample:
  "get_prop (last (data blank_id_page)) ''id'' = JStr ''''
   \<and> length (fst (fetchTransactions 1704067200 1706745600
        [Inr blank_id_page, Inr empty_page])) = 2
   \<and> starting_after (fst (fetchTransactions 1704067200 1706745600
        [Inr blank_id_page, Inr empty_page]) ! 1) = None"
  by code_simp

text \<open>
  C9, amended. The first call of \<open>fetchTransactions\<close> carries no \<open>starting_after\<close>.
  Every later call follows a page that was not empty, and carries as \<open>starting_after\<close>
  the \<open>id\<close> of the last record of that page when that \<open>id\<close> is truthy, and no
  \<open>starting_after\<close> when it is not.
\<close>

theorem C9_cursor:
  "fst (fetchTransactions startUTC endUTC script) \<noteq> []
   \<and> starting_after (hd (fst (fetchTransactions startUTC endUTC script))) = None
   \<and> (\<forall>k. Suc k < length (fst (fetchTransactions startUTC endUTC script)) \<longrightarrow>
        (\<exists>resp. k < length script \<and> script ! k = Inr resp \<and> data resp \<noteq> [] \<and>
           starting_after (fst (fetchTransactions startUTC endUTC script) ! Suc k) =
             (if truthy (get_prop (last (data resp)) ''id'')
              then Some (get_prop (last (data resp)) ''id'') else None)))"
  using fetch_loop_requests [of startUTC endUTC "[]" JNull script]
  unfolding fetchTransactions_fst by simp

theorem C9_cursor_witness:
  "Suc 1 < length (fst (fetchTransactions 1704067200 1706745600 (map Inr three_pages)))
   \<and> starting_after (hd (fst (fetchTransactions 1704067200 1706745600 (map Inr three_pages))))
       = None
   \<and> get_prop (last (data (three_pages ! 1))) ''id'' = JStr ''ch_20''
   \<and> starting_after (fst (fetchTransactions 1704067200 1706745600 (map Inr three_pages)) ! Suc 1)
       = Some (JStr ''ch_20'')"
proof -
  let ?reqs = "fst (fetchTransactions 1704067200 1706745600 (map Inr three_pages))"
  have len: "Suc 1 < length ?reqs" by code_simp
  have page: "map Inr three_pages ! 1 = (Inr (three_pages ! 1) :: reply)" by code_simp
  have ident: "get_prop (last (data (three_pages ! 1))) ''id'' = JStr ''ch_20''" by code_simp
  from C9_cursor [of 1704067200 1706745600 "map Inr three_pages"] len
  obtain resp where "map Inr three_pages ! 1 = (Inr resp :: reply)"
    and sa: "starting_after (?reqs ! Suc 1) =
      (if truthy (get_prop (last (data resp)) ''id'')
       then Some (get_prop (last (data resp)) ''id'') else None)"
    and first: "starting_after (hd ?reqs) = None"
    by blast
  with page have "resp = three_pages ! 1" by simp
  with sa ident len first show ?thesis by simp
qed

section \<open>Properties of the mapping\<close>

lemma object_literal_find:
  "object_literal ps = Inr flat \<Longrightarrow>
   map_of flat k =
     (case find (\<lambda>p. fst p = k) ps of None \<Rightarrow> None | Some p \<Rightarrow> Some (projr (snd p)))"
proof (induction ps arbitrary: flat)
  case Nil
  then show ?case by simp
next
  case (Cons p ps)
  obtain k' m where p: "p = (k', m)" by (cases p)
  from Cons.prems p obtain v r where m: "m = Inr v" and r: "object_literal ps = Inr r"
    and flat: "flat = (k', v) # r"
    by (auto split: sum.splits)
  show ?case using Cons.IH[OF r] by (simp add: p m flat)
qed

lemma object_literal_total:
  "list_all (\<lambda>p. isl (snd p) = False) ps \<Longrightarrow> \<exists>flat. object_literal ps = Inr flat"
proof (induction ps)
  case Nil
  then show ?case by simp
next
  case (Cons p ps)
  then show ?case by (cases p; cases "snd p") auto
qed

text \<open>Looking a key up without simplifying the entries it is not compared with.\<close>

lemma find_weak_cong: "find P xs = find P xs"
  by (rule refl)

lemma mapCharge_not_nullish: "mapCharge rt charge = Inr flat \<Longrightarrow> nullish charge = False"
  by (cases "nullish charge") (simp_all add: mapCharge_def get_def)

lemma truthy_not_nullish: "truthy v \<Longrightarrow> nullish v = False"
  by (cases v) simp_all

lemma get_prop_nullish: "nullish v \<Longrightarrow> get_prop v k = JUndefined"
  by (cases v) simp_all

lemma get_prop_not_nullish: "get_prop v k = JNum n \<Longrightarrow> nullish v = False"
  by (cases v) simp_all

lemma elem0_nullish: "nullish v \<Longrightarrow> elem0 v = JUndefined"
  by (cases v) simp_all

lemmas lookup_defs = get_def member_def opt_member_def or_else_def cond_def
  strict_eq_str_def divide_by_def

text \<open>A positive result below half the smallest positive number is rounded to zero.\<close>

lemma bit_length_nonneg: "0 \<le> bit_length n"
proof (induction n rule: bit_length.induct)
  case (1 n)
  then show ?case by (subst bit_length.simps) auto
qed

lemma bit_length_lower: "2 ^ k \<le> n \<Longrightarrow> int k < bit_length n"
proof (induction k arbitrary: n)
  case 0
  then have "0 < n" by simp
  then show ?case
    using bit_length_nonneg [of "n div 2"] by (subst bit_length.simps) simp
next
  case (Suc k)
  then have "2 ^ k \<le> n div 2" by simp
  then have "int k < bit_length (n div 2)" by (rule Suc.IH)
  moreover have "(0::int) < 2 ^ Suc k" by simp
  then have "0 < n" using Suc.prems by linarith
  ultimately show ?case by (subst bit_length.simps) simp
qed

lemma round_half_even_small: "0 \<le> y \<Longrightarrow> y < 1 / 2 \<Longrightarrow> round_half_even y = 0"
proof -
  assume a: "0 \<le> y" "y < 1 / 2"
  then have "\<lfloor>y\<rfloor> = 0" by (simp add: floor_eq_iff)
  with a show ?thesis by (simp add: round_half_even_def)
qed

lemma ieee_round_zero: "ieee_round 0 = Fin 0"
  by (simp add: ieee_round_def)

lemma ieee_round_underflow:
  assumes "0 < x" and "x < 1 / 2 ^ 1075"
  shows "ieee_round x = Fin 0"
proof -
  have x1: "x < 1" using assms(2) by (rule less_trans) simp
  have "2 ^ 1075 < 1 / x"
    using assms by (simp add: field_simps)
  moreover have "1 / x \<le> of_int \<lceil>1 / x\<rceil>" by (rule le_of_int_ceiling)
  ultimately have "(2::rat) ^ 1075 - 1 \<le> of_int (\<lceil>1 / x\<rceil> - 1)" by simp
  moreover have "(2::rat) ^ 1021 \<le> 2 ^ 1075 - 1" by simp
  ultimately have "(of_int (2 ^ 1021) :: rat) \<le> of_int (\<lceil>1 / x\<rceil> - 1)" by simp
  then have "(2::int) ^ 1021 \<le> \<lceil>1 / x\<rceil> - 1" by (simp only: of_int_le_iff)
  then have "int 1021 < bit_length (\<lceil>1 / x\<rceil> - 1)" by (rule bit_length_lower)
  then have "floor_log2 x \<le> - 1022"
    using x1 by (simp add: floor_log2_def)
  then have e: "max (floor_log2 x) (- 1022) = - 1022" by simp
  have ulp: "pow2 (- 1022 - 52) = 1 / 2 ^ 1074" by (simp add: pow2_def)
  have "x / (1 / 2 ^ 1074) < 1 / 2" using assms by (simp add: field_simps)
  moreover have "0 \<le> x / (1 / 2 ^ 1074)" using assms by simp
  ultimately have r: "round_half_even (x / (1 / 2 ^ 1074)) = 0"
    using round_half_even_small by blast
  have nz: "x \<noteq> 0" "\<bar>x\<bar> = x" "\<not> x < 0" using assms(1) by simp_all
  have u: "pow2 (max (floor_log2 x) (- 1022) - 52) = 1 / 2 ^ 1074"
    by (simp only: e ulp)
  have p: "\<not> pow2 1024 \<le> 0" by (simp add: pow2_def)
  have "ieee_round x =
     (if pow2 1024 \<le> of_int (round_half_even (x / (1 / 2 ^ 1074))) * (1 / 2 ^ 1074)
      then NaN
      else Fin (of_int (round_half_even (x / (1 / 2 ^ 1074))) * (1 / 2 ^ 1074)))"
    by (simp only: ieee_round_def Let_def nz u if_False)
  also have "\<dots> = Fin 0"
    by (simp only: r of_int_0 mult_zero_left p if_False)
  finally show ?thesis .
qed

lemma date_iso_number:
  "time_clip n \<noteq> NaN \<Longrightarrow> isl (date_iso rt (Inr (JNum n))) = False"
  by (cases "time_clip n") (simp_all add: date_iso_def toISOString_def)

lemma mapCharge_total:
  assumes nn: "\<not> nullish charge"
    and created: "get_prop charge ''created'' = JNum (Fin t)"
      "time_clip (ieee_round (t * 1000)) \<noteq> NaN"
    and currency: "get_prop charge ''currency'' = JStr cur"
    and refunded: "truthy (get_prop charge ''refunded'') \<longrightarrow>
       get_prop (elem0 (get_prop (get_prop charge ''refunds'') ''data'')) ''created''
         = JNum (Fin t')
       \<and> time_clip (ieee_round (t' * 1000)) \<noteq> NaN"
  shows "\<exists>flat. mapCharge rt charge = Inr flat"
proof -
  have d1: "isl (date_iso rt (Inr (JNum (ieee_round (t * 1000))))) = False"
    using created(2) by (rule date_iso_number)
  have r: "truthy (get_prop charge ''refunded'') \<Longrightarrow>
     isl (date_iso rt (times_by rt
        (member (member0 (member (get charge ''refunds'') ''data'')) ''created'') 1000)) = False"
  proof -
    assume tr: "truthy (get_prop charge ''refunded'')"
    with refunded
    have c: "get_prop (elem0 (get_prop (get_prop charge ''refunds'') ''data'')) ''created''
        = JNum (Fin t')"
      and b: "time_clip (ieee_round (t' * 1000)) \<noteq> NaN" by simp_all
    have n1: "nullish (elem0 (get_prop (get_prop charge ''refunds'') ''data'')) = False"
      using c by (rule get_prop_not_nullish)
    have n2: "nullish (get_prop (get_prop charge ''refunds'') ''data'') = False"
      using n1 elem0_nullish by fastforce
    have n3: "nullish (get_prop charge ''refunds'') = False"
      using n2 get_prop_nullish by fastforce
    show ?thesis
      using nn n1 n2 n3 c date_iso_number [OF b, of rt]
      by (simp add: get_def member_def member0_def times_by_def)
  qed
  show ?thesis
    unfolding mapCharge_def
    apply (rule object_literal_total)
    using nn created(1) currency d1 r
    apply (simp add: get_def member_def opt_member_def or_else_def cond_def
        strict_eq_str_def divide_by_def times_by_def toUpperCase_def truthy_not_nullish)
    done
qed

text \<open>
  C4 as stated fails: a charge without \<open>amount\<close> is mapped to the amount NaN, not to the
  empty string, and an \<open>application_fee_amount\<close> that is present and zero is mapped to
  the empty string, not to zero.
\<close>

theorem C4_amounts_counterexample:
  "get_prop minimal_charge ''amount'' = JUndefined
   \<and> isl (mapCharge sample_runtime minimal_charge) = False
   \<and> map_of (projr (mapCharge sample_runtime minimal_charge)) ''Amount'' = Some (JNum NaN)
   \<and> get_prop free_charge ''application_fee_amount'' = JNum (Fin 0)
   \<and> isl (mapCharge sample_runtime free_charge) = False
   \<and> map_of (projr (mapCharge sample_runtime free_charge)) ''Application Fee''
        = Some emptyString"
  by code_simp

text \<open>
  C4, amended. On a charge that is mapped, each amount column is the number of its source
  field divided by 100 in the arithmetic of the language, the quotient rounded to the
  nearest number of the floating point format; but the application fee column is the
  empty string when that quotient is zero, as it is for a fee of zero and for a fee
  below \<open>100 / 2 ^ 1075\<close>. The application fee column is the empty string when
  \<open>application_fee_amount\<close> is absent or null, and the columns of the fee and of the
  disputed amount are when \<open>balance_transaction\<close> and \<open>dispute\<close> are. The columns
  of \<open>amount\<close>, \<open>amount_refunded\<close> and \<open>amount_captured\<close> have no default:
  they are NaN when the field is absent, as are the fee and the disputed amount when
  their field is absent from a \<open>balance_transaction\<close> or \<open>dispute\<close> that is there.
\<close>

theorem C4_amounts:
  assumes m: "mapCharge rt charge = Inr flat"
  shows
    "(get_prop charge ''amount'' = JNum (Fin a) \<longrightarrow>
        map_of flat ''Amount'' = Some (JNum (ieee_round (a / 100))))
     \<and> (get_prop charge ''amount_refunded'' = JNum (Fin r) \<longrightarrow>
        map_of flat ''Amount Refunded'' = Some (JNum (ieee_round (r / 100)))
        \<and> map_of flat ''Converted Amount Refunded'' = Some (JNum (ieee_round (r / 100))))
     \<and> (get_prop charge ''amount_captured'' = JNum (Fin c) \<longrightarrow>
        map_of flat ''Converted Amount'' = Some (JNum (ieee_round (c / 100))))
     \<and> (get_prop (get_prop charge ''balance_transaction'') ''fee'' = JNum (Fin f) \<longrightarrow>
        map_of flat ''Fee'' = Some (JNum (ieee_round (f / 100))))
     \<and> (get_prop (get_prop charge ''dispute'') ''amount'' = JNum (Fin d) \<longrightarrow>
        map_of flat ''Disputed Amount'' = Some (JNum (ieee_round (d / 100))))
     \<and> (get_prop charge ''application_fee_amount'' = JNum (Fin p) \<longrightarrow>
        map_of flat ''Application Fee''
          = Some (if truthy (JNum (ieee_round (p / 100)))
                  then JNum (ieee_round (p / 100)) else emptyString))
     \<and> (get_prop charge ''application_fee_amount'' = JNum (Fin p)
        \<and> 0 \<le> p \<and> p < 100 / 2 ^ 1075 \<longrightarrow>
        map_of flat ''Application Fee'' = Some emptyString)
     \<and> (nullish (get_prop charge ''application_fee_amount'') \<longrightarrow>
        map_of flat ''Application Fee'' = Some emptyString)
     \<and> (nullish (get_prop charge ''balance_transaction'') \<longrightarrow>
        map_of flat ''Fee'' = Some emptyString)
     \<and> (nullish (get_prop charge ''dispute'') \<longrightarrow>
        map_of flat ''Disputed Amount'' = Some emptyString)
     \<and> (get_prop charge ''amount'' = JUndefined \<longrightarrow>
        map_of flat ''Amount'' = Some (JNum NaN))
     \<and> (get_prop charge ''amount_refunded'' = JUndefined \<longrightarrow>
        map_of flat ''Amount Refunded'' = Some (JNum NaN)
        \<and> map_of flat ''Converted Amount Refunded'' = Some (JNum NaN))
     \<and> (get_prop charge ''amount_captured'' = JUndefined \<longrightarrow>
        map_of flat ''Converted Amount'' = Some (JNum NaN))
     \<and> (truthy (get_prop charge ''balance_transaction'')
        \<and> get_prop (get_prop charge ''balance_transaction'') ''fee'' = JUndefined \<longrightarrow>
        map_of flat ''Fee'' = Some (JNum NaN))
     \<and> (truthy (get_prop charge ''dispute'')
        \<and> get_prop (get_prop charge ''dispute'') ''amount'' = JUndefined \<longrightarrow>
        map_of flat ''Disputed Amount'' = Some (JNum NaN))"
proof -
  note nn = mapCharge_not_nullish [OF m]
  note tab = object_literal_find [OF m [unfolded mapCharge_def]]
  have amount: "map_of flat ''Amount'' = Some (projr (divide_by rt (get charge ''amount'') 100))"
    by (simp add: tab cong: find_weak_cong)
  have refunded: "map_of flat ''Amount Refunded''
      = Some (projr (divide_by rt (get charge ''amount_refunded'') 100))"
    by (simp add: tab cong: find_weak_cong)
  have refunded': "map_of flat ''Converted Amount Refunded''
      = Some (projr (divide_by rt (get charge ''amount_refunded'') 100))"
    by (simp add: tab cong: find_weak_cong)
  have captured: "map_of flat ''Converted Amount''
      = Some (projr (divide_by rt (get charge ''amount_captured'') 100))"
    by (simp add: tab cong: find_weak_cong)
  have fee: "map_of flat ''Fee''
      = Some (projr (cond (get charge ''balance_transaction'')
          (divide_by rt (member (get charge ''balance_transaction'') ''fee'') 100)
          (Inr emptyString)))"
    by (simp add: tab cong: find_weak_cong)
  have disputed: "map_of flat ''Disputed Amount''
      = Some (projr (cond (get charge ''dispute'')
          (divide_by rt (member (get charge ''dispute'') ''amount'') 100)
          (Inr emptyString)))"
    by (simp add: tab cong: find_weak_cong)
  have app: "map_of flat ''Application Fee''
      = Some (projr (or_else (divide_by rt (get charge ''application_fee_amount'') 100)
          emptyString))"
    by (simp add: tab cong: find_weak_cong)
  have bt: "get_prop (get_prop charge ''balance_transaction'') ''fee'' = JNum (Fin f) \<Longrightarrow>
      truthy (get_prop charge ''balance_transaction'')"
    by (cases "get_prop charge ''balance_transaction''") simp_all
  have dp: "get_prop (get_prop charge ''dispute'') ''amount'' = JNum (Fin d) \<Longrightarrow>
      truthy (get_prop charge ''dispute'')"
    by (cases "get_prop charge ''dispute''") simp_all
  have nt: "\<And>v. nullish v \<Longrightarrow> \<not> truthy v"
    using truthy_not_nullish by auto
  have nz: "\<And>v. nullish v \<Longrightarrow> to_number rt v = NaN \<or> to_number rt v = Fin 0"
    subgoal for v by (cases v) simp_all
    done
  show ?thesis
  proof (intro conjI impI)
    show "get_prop charge ''amount'' = JNum (Fin a) \<Longrightarrow>
        map_of flat ''Amount'' = Some (JNum (ieee_round (a / 100)))"
      using nn by (simp add: amount lookup_defs)
    show "get_prop charge ''amount_refunded'' = JNum (Fin r) \<Longrightarrow>
        map_of flat ''Amount Refunded'' = Some (JNum (ieee_round (r / 100)))"
      using nn by (simp add: refunded lookup_defs)
    show "get_prop charge ''amount_refunded'' = JNum (Fin r) \<Longrightarrow>
        map_of flat ''Converted Amount Refunded'' = Some (JNum (ieee_round (r / 100)))"
      using nn by (simp add: refunded' lookup_defs)
    show "get_prop charge ''amount_captured'' = JNum (Fin c) \<Longrightarrow>
        map_of flat ''Converted Amount'' = Some (JNum (ieee_round (c / 100)))"
      using nn by (simp add: captured lookup_defs)
    show "get_prop (get_prop charge ''balance_transaction'') ''fee'' = JNum (Fin f) \<Longrightarrow>
        map_of flat ''Fee'' = Some (JNum (ieee_round (f / 100)))"
      using nn bt by (simp add: fee lookup_defs truthy_not_nullish)
    show "get_prop (get_prop charge ''dispute'') ''amount'' = JNum (Fin d) \<Longrightarrow>
        map_of flat ''Disputed Amount'' = Some (JNum (ieee_round (d / 100)))"
      using nn dp by (simp add: disputed lookup_defs truthy_not_nullish)
    show "get_prop charge ''application_fee_amount'' = JNum (Fin p) \<Longrightarrow>
        map_of flat ''Application Fee''
          = Some (if truthy (JNum (ieee_round (p / 100)))
                  then JNum (ieee_round (p / 100)) else emptyString)"
      using nn by (simp add: app lookup_defs)
    show "get_prop charge ''application_fee_amount'' = JNum (Fin p)
        \<and> 0 \<le> p \<and> p < 100 / 2 ^ 1075 \<Longrightarrow>
        map_of flat ''Application Fee'' = Some emptyString"
    proof -
      assume a: "get_prop charge ''application_fee_amount'' = JNum (Fin p)
        \<and> 0 \<le> p \<and> p < 100 / 2 ^ 1075"
      have "ieee_round (p / 100) = Fin 0"
      proof (cases "p = 0")
        case True
        then show ?thesis by (simp add: ieee_round_zero)
      next
        case False
        with a have "0 < p / 100" "p / 100 < 1 / 2 ^ 1075" by simp_all
        then show ?thesis by (rule ieee_round_underflow)
      qed
      with a nn show ?thesis by (simp add: app lookup_defs)
    qed
    show "nullish (get_prop charge ''application_fee_amount'') \<Longrightarrow>
        map_of flat ''Application Fee'' = Some emptyString"
      using nn nz [of "get_prop charge ''application_fee_amount''"]
      by (auto simp: app lookup_defs ieee_round_zero)
    show "nullish (get_prop charge ''balance_transaction'') \<Longrightarrow>
        map_of flat ''Fee'' = Some emptyString"
      using nn nt by (simp add: fee lookup_defs)
    show "nullish (get_prop charge ''dispute'') \<Longrightarrow>
        map_of flat ''Disputed Amount'' = Some emptyString"
      using nn nt by (simp add: disputed lookup_defs)
    show "get_prop charge ''amount'' = JUndefined \<Longrightarrow>
        map_of flat ''Amount'' = Some (JNum NaN)"
      using nn by (simp add: amount lookup_defs)
    show "get_prop charge ''amount_refunded'' = JUndefined \<Longrightarrow>
        map_of flat ''Amount Refunded'' = Some (JNum NaN)"
      using nn by (simp add: refunded lookup_defs)
    show "get_prop charge ''amount_refunded'' = JUndefined \<Longrightarrow>
        map_of flat ''Converted Amount Refunded'' = Some (JNum NaN)"
      using nn by (simp add: refunded' lookup_defs)
    show "get_prop charge ''amount_captured'' = JUndefined \<Longrightarrow>
        map_of flat ''Converted Amount'' = Some (JNum NaN)"
      using nn by (simp add: captured lookup_defs)
    show "truthy (get_prop charge ''balance_transaction'')
        \<and> get_prop (get_prop charge ''balance_transaction'') ''fee'' = JUndefined \<Longrightarrow>
        map_of flat ''Fee'' = Some (JNum NaN)"
      using nn by (simp add: fee lookup_defs truthy_not_nullish)
    show "truthy (get_prop charge ''dispute'')
        \<and> get_prop (get_prop charge ''dispute'') ''amount'' = JUndefined \<Longrightarrow>
        map_of flat ''Disputed Amount'' = Some (JNum NaN)"
      using nn by (simp add: disputed lookup_defs truthy_not_nullish)
  qed
qed

theorem C4_amounts_witness:
  "mapCharge sample_runtime disputed_charge
     = Inr (projr (mapCharge sample_runtime disputed_charge))
   \<and> get_prop disputed_charge ''amount'' = JNum (Fin 2050)
   \<and> map_of (projr (mapCharge sample_runtime disputed_charge)) ''Amount''
       = Some (JNum (Fin (41 / 2)))
   \<and> get_prop (get_prop disputed_charge ''balance_transaction'') ''fee'' = JNum (Fin 89)
   \<and> map_of (projr (mapCharge sample_runtime disputed_charge)) ''Fee''
       = Some (JNum (Fin (8016407336719483 / 9007199254740992)))
   \<and> get_prop disputed_charge ''application_fee_amount'' = JNum (Fin 123)
   \<and> map_of (projr (mapCharge sample_runtime disputed_charge)) ''Application Fee''
       = Some (JNum (Fin (2769713770832855 / 2251799813685248)))
   \<and> mapCharge sample_runtime minimal_charge
       = Inr (projr (mapCharge sample_runtime minimal_charge))
   \<and> nullish (get_prop minimal_charge ''application_fee_amount'')
   \<and> map_of (projr (mapCharge sample_runtime minimal_charge)) ''Application Fee''
       = Some emptyString
   \<and> nullish (get_prop minimal_charge ''balance_transaction'')
   \<and> map_of (projr (mapCharge sample_runtime minimal_charge)) ''Fee'' = Some emptyString
   \<and> get_prop minimal_charge ''amount_captured'' = JUndefined
   \<and> map_of (projr (mapCharge sample_runtime minimal_charge)) ''Converted Amount''
       = Some (JNum NaN)
   \<and> mapCharge sample_runtime tiny_fee_charge
       = Inr (projr (mapCharge sample_runtime tiny_fee_charge))
   \<and> get_prop tiny_fee_charge ''application_fee_amount'' = JNum (Fin (1 / 2 ^ 1074))
   \<and> map_of (projr (mapCharge sample_runtime tiny_fee_charge)) ''Application Fee''
       = Some emptyString"
proof -
  have valid: "time_clip (ieee_round 1704067200000) \<noteq> NaN"
    "time_clip (ieee_round 1704153600000) \<noteq> NaN"
    by code_simp+
  have q: "ieee_round (2050 / 100) = Fin (41 / 2)"
    "ieee_round (89 / 100) = Fin (8016407336719483 / 9007199254740992)"
    "ieee_round (123 / 100) = Fin (2769713770832855 / 2251799813685248)"
    by code_simp+
  have p1: "get_prop disputed_charge ''amount'' = JNum (Fin 2050)"
    "get_prop (get_prop disputed_charge ''balance_transaction'') ''fee'' = JNum (Fin 89)"
    "get_prop disputed_charge ''application_fee_amount'' = JNum (Fin 123)"
    by code_simp+
  have p2: "nullish (get_prop minimal_charge ''application_fee_amount'')"
    "nullish (get_prop minimal_charge ''balance_transaction'')"
    "get_prop minimal_charge ''amount_captured'' = JUndefined"
    by code_simp+
  have p3: "get_prop tiny_fee_charge ''application_fee_amount'' = JNum (Fin (1 / 2 ^ 1074))"
    by (simp add: tiny_fee_charge_def)
  have small: "(0::rat) \<le> 1 / 2 ^ 1074" "(1::rat) / 2 ^ 1074 < 100 / 2 ^ 1075"
    by simp_all
  have "\<exists>flat. mapCharge sample_runtime disputed_charge = Inr flat"
    by (rule mapCharge_total [of _ 1704067200 "''usd''" 1704153600])
      (simp_all add: disputed_charge_def valid)
  then have m1: "mapCharge sample_runtime disputed_charge
     = Inr (projr (mapCharge sample_runtime disputed_charge))"
    by auto
  have "\<exists>flat. mapCharge sample_runtime minimal_charge = Inr flat"
    by (rule mapCharge_total [of _ 1704067200 "''usd''" 0])
      (simp_all add: minimal_charge_def valid)
  then have m2: "mapCharge sample_runtime minimal_charge
     = Inr (projr (mapCharge sample_runtime minimal_charge))"
    by auto
  have "\<exists>flat. mapCharge sample_runtime tiny_fee_charge = Inr flat"
    by (rule mapCharge_total [of _ 1704067200 "''usd''" 0])
      (simp_all add: tiny_fee_charge_def valid)
  then have m3: "mapCharge sample_runtime tiny_fee_charge
     = Inr (projr (mapCharge sample_runtime tiny_fee_charge))"
    by auto
  note i1 = C4_amounts [OF m1, of 2050 _ _ 89 _ 123]
  note i2 = C4_amounts [OF m2]
  note i3 = C4_amounts [OF m3, of _ _ _ _ _ "1 / 2 ^ 1074"]
  have a1: "map_of (projr (mapCharge sample_runtime disputed_charge)) ''Amount''
       = Some (JNum (Fin (41 / 2)))"
    using i1 p1(1) q(1) by simp
  have a2: "map_of (projr (mapCharge sample_runtime disputed_charge)) ''Fee''
       = Some (JNum (Fin (8016407336719483 / 9007199254740992)))"
    using i1 p1(2) q(2) by simp
  have a3: "map_of (projr (mapCharge sample_runtime disputed_charge)) ''Application Fee''
       = Some (JNum (Fin (2769713770832855 / 2251799813685248)))"
    using i1 p1(3) q(3) by simp
  have b1: "map_of (projr (mapCharge sample_runtime minimal_charge)) ''Application Fee''
       = Some emptyString"
    "map_of (projr (mapCharge sample_runtime minimal_charge)) ''Fee'' = Some emptyString"
    "map_of (projr (mapCharge sample_runtime minimal_charge)) ''Converted Amount''
       = Some (JNum NaN)"
    using i2 p2 by simp_all
  have c1: "map_of (projr (mapCharge sample_runtime tiny_fee_charge)) ''Application Fee''
       = Some emptyString"
    using i3 p3 small by blast
  show ?thesis
    by (intro conjI m1 m2 m3 p1 p2 p3 a1 a2 a3 b1 c1)
qed





section \<open>Properties of the request handlers\<close>

lemma export_valid_range:
  assumes "truthy (startDate q)" "truthy (endDate q)"
    and "new_Date rt (startDate q) = Fin start" "new_Date rt (endDate q) = Fin end'"
    and "start \<le> end'"
  shows "exportTransactionsToCSV rt q script =
     (fst (fetchTransactions \<lfloor>start / 1000\<rfloor> \<lfloor>end' / 1000\<rfloor> script),
      case snd (fetchTransactions \<lfloor>start / 1000\<rfloor> \<lfloor>end' / 1000\<rfloor> script) of
        None \<Rightarrow> Pending
      | Some (Inl e) \<Rightarrow> Uncaught e
      | Some (Inr transactions') \<Rightarrow>
          (case mapTransactionData rt transactions' of
             Inl e \<Rightarrow> Uncaught e
           | Inr mappedData \<Rightarrow>
               (case keys_of_first mappedData of
                  Inl e \<Rightarrow> Uncaught e
                | Inr fields' \<Rightarrow>
                    (case json2csv rt fields' mappedData of
                       Inl e \<Rightarrow> Uncaught e
                     | Inr csv \<Rightarrow> Responded (Http 200 (Send csv))))))"
  using assms by (simp add: exportTransactionsToCSV_def case_prod_beta Let_def)

text \<open>
  C6. On a request for an export with a valid range of dates for which
  \<open>fetchTransactions\<close> returns no record, the handler throws: there is no first
  record to take the header from, and \<open>Object.keys\<close> of undefined is a TypeError
  that the handler does not catch. The CSV library is not reached.
\<close>

theorem C6_empty_export_throws:
  assumes "truthy (startDate q)" and "truthy (endDate q)"
    and "new_Date rt (startDate q) = Fin start" and "new_Date rt (endDate q) = Fin end'"
    and "start \<le> end'"
    and "snd (fetchTransactions \<lfloor>start / 1000\<rfloor> \<lfloor>end' / 1000\<rfloor> script) = Some (Inr [])"
  shows "snd (exportTransactionsToCSV rt q script) = Uncaught TypeError
         \<and> mapTransactionData rt [] = Inr []
         \<and> keys_of_first [] = Inl TypeError"
  using assms(6)
  by (simp add: export_valid_range [OF assms(1-5)] mapTransactionData_def keys_of_first_def)

theorem C6_empty_export_throws_witness:
  "truthy (startDate january_query) \<and> truthy (endDate january_query)
   \<and> new_Date sample_runtime (startDate january_query) = Fin 1704067200000
   \<and> new_Date sample_runtime (endDate january_query) = Fin 1706745600000
   \<and> snd (fetchTransactions 1704067200 1706745600 [Inr empty_page]) = Some (Inr [])
   \<and> snd (exportTransactionsToCSV sample_runtime january_query [Inr empty_page])
       = Uncaught TypeError"
proof -
  have h: "truthy (startDate january_query)" "truthy (endDate january_query)"
    "new_Date sample_runtime (startDate january_query) = Fin 1704067200000"
    "new_Date sample_runtime (endDate january_query) = Fin 1706745600000"
    "(1704067200000::rat) \<le> 1706745600000"
    by code_simp+
  have fl: "\<lfloor>(1704067200000::rat) / 1000\<rfloor> = 1704067200"
    "\<lfloor>(1706745600000::rat) / 1000\<rfloor> = 1706745600"
    by simp_all
  have f: "snd (fetchTransactions 1704067200 1706745600 [Inr empty_page]) = Some (Inr [])"
    by code_simp
  from C6_empty_export_throws [OF h, of "[Inr empty_page]"] f h fl
  show ?thesis by simp
qed

lemma transactions_external_failure:
  "truthy (startDate q) \<Longrightarrow> truthy (endDate q) \<Longrightarrow>
   new_Date rt (startDate q) = Fin start \<Longrightarrow> new_Date rt (endDate q) = Fin end' \<Longrightarrow>
   start \<le> end' \<Longrightarrow>
   snd (transactions rt q (Inl e # rest))
     = Responded (Http 500 (error_json ''An error occurred while fetching transactions''))"
  by (simp add: transactions_def Let_def)

lemma export_external_failure:
  "truthy (startDate q) \<Longrightarrow> truthy (endDate q) \<Longrightarrow>
   new_Date rt (startDate q) = Fin start \<Longrightarrow> new_Date rt (endDate q) = Fin end' \<Longrightarrow>
   start \<le> end' \<Longrightarrow>
   snd (exportTransactionsToCSV rt q (Inl e # rest)) = Uncaught e"
  by (simp add: exportTransactionsToCSV_def fetchTransactions_def Let_def)

text \<open>
  C7. \<open>transactions\<close> catches a failure of the external call and answers 500 with
  the one message. \<open>exportTransactionsToCSV\<close> has no \<open>try\<close>: there the failure
  leaves the handler as an exception, and the handler writes no response. The run is
  the request for January 2024 with an external call that fails.
\<close>

theorem C7_export_failure_uncaught:
  "transactions sample_runtime january_query [Inl (ExternalError ''connection lost'')]
     = ([\<lparr>created_gte = 1704067200, created_lte = 1706745600, limit = 10000,
          status = ''succeeded'', starting_after = None\<rparr>],
        Responded (Http 500
          (Json (JObj [(''error'', JStr ''An error occurred while fetching transactions'')]))))
   \<and> exportTransactionsToCSV sample_runtime january_query
        [Inl (ExternalError ''connection lost'')]
     = ([\<lparr>created_gte = 1704067200, created_lte = 1706745600, limit = 10,
          status = ''succeeded'', starting_after = None\<rparr>],
        Uncaught (ExternalError ''connection lost''))"
  by code_simp





end
